theory Spec2Isabelle
  imports Complex_Main
begin

section \<open>human\_typist: the typing-simulation engine\<close>

text \<open>
  A shallow embedding of \<^verbatim>\<open>src/human_typist.py\<close>. Everything the Python code does
  to the outside is written into an explicit \<open>world\<close>: the key actions, sleeps and
  status messages it emits (in order), the random source it draws from, and the schedule
  of the stop flag that another thread may set.

  Conventions:
  \<^item> Python floats are idealised as \<open>real\<close>; only their ordering and the field
    operations the source writes are used.
  \<^item> Text is a \<open>string\<close> over the 256 code points U+0000 to U+00FF, a character
    being its code point. The character classes (\<^verbatim>\<open>isalnum\<close>, \<^verbatim>\<open>isspace\<close>,
    \<^verbatim>\<open>isupper\<close>, \<^verbatim>\<open>lower\<close>) are those of Python 3 on these code points. Code
    points above U+00FF are outside the text type.
  \<^item> Every call into \<^verbatim>\<open>random\<close> consumes one number of the random source: a real
    for \<^verbatim>\<open>random()\<close>, \<^verbatim>\<open>uniform\<close>, \<^verbatim>\<open>gauss\<close> and \<^verbatim>\<open>choices\<close>, a natural
    number for \<^verbatim>\<open>randint\<close> and \<^verbatim>\<open>choice\<close>. An exhausted source yields 0.
  \<^item> An exception is a value: a function that can raise returns \<open>Inl (e, w)\<close>, the
    exception \<open>e\<close> with the world \<open>w\<close> as the code left it, or \<open>Inr\<close> with its
    result.
\<close>

subsection \<open>Characters and strings\<close>

definition newline :: char where
  "newline = CHR 0x0A"

definition carriage_return :: char where
  "carriage_return = CHR 0x0D"

definition ord :: "char \<Rightarrow> nat" where
  "ord c = of_char c"

text \<open>\<^verbatim>\<open>str.isupper\<close> on one character: A-Z, and the capital letters U+00C0-U+00D6 and
  U+00D8-U+00DE.\<close>

definition isupper :: "char \<Rightarrow> bool" where
  "isupper c =
     ((65 \<le> ord c \<and> ord c \<le> 90) \<or> (192 \<le> ord c \<and> ord c \<le> 214) \<or>
      (216 \<le> ord c \<and> ord c \<le> 222))"

text \<open>\<^verbatim>\<open>str.isalnum\<close> on one character: 0-9, A-Z, a-z, and of the upper half U+00AA,
  U+00B2, U+00B3, U+00B5, U+00B9, U+00BA, U+00BC-U+00BE, U+00C0-U+00D6, U+00D8-U+00F6
  and U+00F8-U+00FF.\<close>

definition isalnum_char :: "char \<Rightarrow> bool" where
  "isalnum_char c =
     ((48 \<le> ord c \<and> ord c \<le> 57) \<or> (65 \<le> ord c \<and> ord c \<le> 90) \<or>
      (97 \<le> ord c \<and> ord c \<le> 122) \<or> ord c = 170 \<or>
      (178 \<le> ord c \<and> ord c \<le> 179) \<or> ord c = 181 \<or>
      (185 \<le> ord c \<and> ord c \<le> 186) \<or> (188 \<le> ord c \<and> ord c \<le> 190) \<or>
      (192 \<le> ord c \<and> ord c \<le> 214) \<or> (216 \<le> ord c \<and> ord c \<le> 246) \<or>
      (248 \<le> ord c \<and> ord c \<le> 255))"

text \<open>\<^verbatim>\<open>str.isspace\<close> on one character, which is also what \<^verbatim>\<open>str.strip()\<close>
  removes: TAB, LF, VT, FF, CR, the four separators U+001C-U+001F, the space, U+0085
  and the no-break space U+00A0.\<close>

definition isspace_char :: "char \<Rightarrow> bool" where
  "isspace_char c =
     ((9 \<le> ord c \<and> ord c \<le> 13) \<or> (28 \<le> ord c \<and> ord c \<le> 32) \<or>
      ord c = 133 \<or> ord c = 160)"

text \<open>\<^verbatim>\<open>str.lower\<close> on one character: the capital letters move up by 32.\<close>

definition lower :: "char \<Rightarrow> char" where
  "lower c = (if isupper c then char_of (ord c + 32) else c)"

text \<open>\<^verbatim>\<open>str.upper\<close> on one character: a-z, U+00E0-U+00F6 and U+00F8-U+00FE move
  down by 32. The source applies it to the neighbours of the table and to the letters
  of the pool only; the three characters whose capital lies outside the text type
  (U+00B5, U+00DF, U+00FF) are not among them.\<close>

definition upper :: "char \<Rightarrow> char" where
  "upper c =
     (if (97 \<le> ord c \<and> ord c \<le> 122) \<or> (224 \<le> ord c \<and> ord c \<le> 246) \<or>
         (248 \<le> ord c \<and> ord c \<le> 254)
      then char_of (ord c - 32) else c)"

text \<open>\<^verbatim>\<open>str.isalnum\<close>: every character is alphanumeric and there is at least one.\<close>

definition isalnum :: "string \<Rightarrow> bool" where
  "isalnum s = (s \<noteq> [] \<and> list_all isalnum_char s)"

text \<open>\<^verbatim>\<open>s.strip() == ""\<close>: nothing but whitespace.\<close>

definition strip_is_empty :: "string \<Rightarrow> bool" where
  "strip_is_empty s = list_all isspace_char s"

text \<open>\<^verbatim>\<open>str.replace(old, new)\<close> for a non-empty \<open>old\<close> (the source passes
  \<^verbatim>\<open>"\r\n"\<close> and \<^verbatim>\<open>"\r"\<close>): the occurrences are replaced from the left, without
  overlap.\<close>

function replace_str :: "string \<Rightarrow> string \<Rightarrow> string \<Rightarrow> string" where
  "replace_str old new [] = []"
| "replace_str old new (c # cs) =
     (if old \<noteq> [] \<and> take (length old) (c # cs) = old
      then new @ replace_str old new (drop (length old) (c # cs))
      else c # replace_str old new cs)"
  by pat_completeness auto
termination
  by (relation "measure (\<lambda>(old, new, s). length s)") auto

definition normalize_newlines :: "string \<Rightarrow> string" where
  "normalize_newlines text =
     replace_str [carriage_return] [newline]
       (replace_str [carriage_return, newline] [newline] text)"

subsection \<open>Typing utilities\<close>

text \<open>\<^verbatim>\<open>QWERTY_NEIGHBORS\<close>, a dictionary from a key to the list of its neighbours.\<close>

definition QWERTY_NEIGHBORS :: "char \<rightharpoonup> string" where
  "QWERTY_NEIGHBORS = map_of
    [(CHR ''a'', ''qwsz''), (CHR ''b'', ''vghn''), (CHR ''c'', ''xdfv''),
     (CHR ''d'', ''erfcxs''), (CHR ''e'', ''wsdfr''), (CHR ''f'', ''rtgdvc''),
     (CHR ''g'', ''tyfhvb''), (CHR ''h'', ''yugjnb''), (CHR ''i'', ''ujko''),
     (CHR ''j'', ''uikhm''), (CHR ''k'', ''ijolm,''), (CHR ''l'', ''kop;.''),
     (CHR ''m'', ''nj,''), (CHR ''n'', ''bhjm''), (CHR ''o'', ''iklp''),
     (CHR ''p'', ''ol;[''), (CHR ''q'', ''was''), (CHR ''r'', ''edfgt''),
     (CHR ''s'', ''aqwzedx''), (CHR ''t'', ''rfgy''), (CHR ''u'', ''yhji''),
     (CHR ''v'', ''cfgb''), (CHR ''w'', ''qase''), (CHR ''x'', ''zsdc''),
     (CHR ''y'', ''tugh''), (CHR ''z'', ''asx''),
     (CHR ''1'', ''2q''), (CHR ''2'', ''13w''), (CHR ''3'', ''24e''),
     (CHR ''4'', ''35r''), (CHR ''5'', ''46t''), (CHR ''6'', ''57y''),
     (CHR ''7'', ''68u''), (CHR ''8'', ''79i''), (CHR ''9'', ''80o''),
     (CHR ''0'', ''9p''),
     (CHR '','', ''kml.''), (CHR ''.'', '',;l/''), (CHR '';'', ''l,p.''),
     (CHR 0x27, '';''), (CHR ''-'', ''0=''), (CHR ''='', ''-''),
     (CHR ''/'', ''.;'')]"

definition PUNCTUATION_SET :: string where
  "PUNCTUATION_SET = '',.!?;:''"

definition keep_case :: "char \<Rightarrow> char \<Rightarrow> char" where
  "keep_case src_char neighbor = (if isupper src_char then upper neighbor else neighbor)"

definition secs_per_char_for_wpm :: "real \<Rightarrow> real" where
  "secs_per_char_for_wpm wpm = 12 / max wpm 1"

record settings =
  min_wpm :: real
  max_wpm :: real
  letter_typo_rate :: real
  punct_typo_rate :: real
  enable_corrections :: bool
  micro_pauses :: bool
  think_pause_chance :: real
  jitter_std :: real
  correction_latency :: "real \<times> real"

text \<open>The defaults of \<^verbatim>\<open>Settings.__init__\<close>, which stores its arguments unchecked.\<close>

definition default_settings :: settings where
  "default_settings =
     \<lparr>min_wpm = 45, max_wpm = 70, letter_typo_rate = 3 / 100, punct_typo_rate = 2 / 100,
      enable_corrections = True, micro_pauses = True, think_pause_chance = 8 / 100,
      jitter_std = 25 / 100, correction_latency = (15 / 100, 55 / 100)\<rparr>"

subsection \<open>The world: emitted events, random source, stop flag\<close>

datatype key = Enter | Backspace

text \<open>The status strings of \<^verbatim>\<open>HumanTyper.start\<close>, in the order of the source:
  "Click into your target text field now...", "Typing starts in \{sec\}...", "Typing...",
  "Done or stopped.".\<close>

datatype status = Click_into_target | Typing_starts_in int | Typing | Done_or_stopped

datatype event =
    Press key
  | Release key
  | TypeText char
  | Sleep real
  | Status status
  | Beep

text \<open>\<open>stop_after = Some n\<close>: the first \<open>n\<close> readings of \<^verbatim>\<open>stop_event.is_set()\<close>
  give False and every later one gives True; \<open>None\<close>: nobody ever requests a stop. The
  flag is set once and never cleared while a session runs, so every run reads it so.\<close>

record world =
  trace :: "event list"
  floats :: "real list"
  ints :: "nat list"
  polls :: nat
  stop_after :: "nat option"

definition emit :: "event \<Rightarrow> world \<Rightarrow> world" where
  "emit ev w = w\<lparr>trace := trace w @ [ev]\<rparr>"

text \<open>The exceptions of the source: RuntimeError is raised by \<^verbatim>\<open>type_text\<close>, ValueError
  by \<^verbatim>\<open>time.sleep\<close> and by \<^verbatim>\<open>_read_settings\<close>. What a function leaves when it may
  raise: the exception with the world at the raise, or the result.\<close>

datatype error = RuntimeError | ValueError

type_synonym 'a outcome = "(error \<times> world) + 'a"

text \<open>\<^verbatim>\<open>time.sleep(d)\<close> raises ValueError for a negative length.\<close>

definition sleep :: "real \<Rightarrow> world \<Rightarrow> world outcome" where
  "sleep d w = (if d < 0 then Inl (ValueError, w) else Inr (emit (Sleep d) w))"

definition is_set :: "world \<Rightarrow> bool \<times> world" where
  "is_set w =
     ((case stop_after w of None \<Rightarrow> False | Some n \<Rightarrow> n \<le> polls w),
      w\<lparr>polls := Suc (polls w)\<rparr>)"

definition next_float :: "world \<Rightarrow> real \<times> world" where
  "next_float w = (case floats w of [] \<Rightarrow> (0, w) | u # us \<Rightarrow> (u, w\<lparr>floats := us\<rparr>))"

definition next_int :: "world \<Rightarrow> nat \<times> world" where
  "next_int w = (case ints w of [] \<Rightarrow> (0, w) | n # ns \<Rightarrow> (n, w\<lparr>ints := ns\<rparr>))"

text \<open>\<^verbatim>\<open>random.random()\<close> is a number of [0, 1): a number of the source outside this
  interval counts as 0, so that every draw is one that Python can make.
  \<^verbatim>\<open>random.uniform(a, b)\<close> is \<^verbatim>\<open>a + (b - a) * random()\<close>; \<^verbatim>\<open>random.gauss(mu, sigma)\<close>
  is \<^verbatim>\<open>mu + z * sigma\<close> for a standard normal \<open>z\<close>, any real.\<close>

definition random_random :: "world \<Rightarrow> real \<times> world" where
  "random_random w =
     (case next_float w of (u, w') \<Rightarrow> (if 0 \<le> u \<and> u < 1 then u else 0, w'))"

definition uniform :: "real \<Rightarrow> real \<Rightarrow> world \<Rightarrow> real \<times> world" where
  "uniform a b w = (case random_random w of (u, w') \<Rightarrow> (a + (b - a) * u, w'))"

definition gauss :: "real \<Rightarrow> real \<Rightarrow> world \<Rightarrow> real \<times> world" where
  "gauss mu sigma w = (case next_float w of (z, w') \<Rightarrow> (mu + z * sigma, w'))"

text \<open>\<^verbatim>\<open>random.randint(a, b)\<close> with \<open>a \<le> b\<close> (the only way the source calls it) and
  \<^verbatim>\<open>random.choice(seq)\<close> on a non-empty sequence: any member can come out.\<close>

definition randint :: "nat \<Rightarrow> nat \<Rightarrow> world \<Rightarrow> nat \<times> world" where
  "randint a b w = (case next_int w of (n, w') \<Rightarrow> (a + n mod (b - a + 1), w'))"

definition choice :: "'a list \<Rightarrow> world \<Rightarrow> 'a \<times> world" where
  "choice xs w = (case next_int w of (n, w') \<Rightarrow> (xs ! (n mod length xs), w'))"

definition sample_wpm :: "settings \<Rightarrow> world \<Rightarrow> real \<times> world" where
  "sample_wpm s w = uniform (min_wpm s) (max_wpm s) w"

definition adjacent_key :: "char \<Rightarrow> world \<Rightarrow> char \<times> world" where
  "adjacent_key c w =
     (case QWERTY_NEIGHBORS (lower c) of
        Some (n # ns) \<Rightarrow> (case choice (n # ns) w of (x, w') \<Rightarrow> (keep_case c x, w'))
      | _ \<Rightarrow> (case choice ''abcdefghijklmnopqrstuvwxyz'' w of
                (x, w') \<Rightarrow> (if isupper c then upper x else x, w')))"

subsection \<open>Delays\<close>

text \<open>\<^verbatim>\<open>_char_delay\<close>, as a function of the jittered sample, and with the draw.\<close>

definition clamp_delay :: "real \<Rightarrow> real \<Rightarrow> real" where
  "clamp_delay base jittered = max (1 / 1000) (min jittered (base * 3))"

definition char_delay :: "settings \<Rightarrow> real \<Rightarrow> world \<Rightarrow> real \<times> world" where
  "char_delay s base_wpm w =
     (let base = secs_per_char_for_wpm base_wpm in
      case gauss base (base * jitter_std s) w of
        (jittered, w') \<Rightarrow> (clamp_delay base jittered, w'))"

subsection \<open>Tokens\<close>

text \<open>The scan of \<^verbatim>\<open>type_text\<close> that splits the text into tokens: \<open>current\<close> is the
  run being collected, \<open>tokens\<close> the tokens emitted so far.\<close>

definition is_word_char :: "char \<Rightarrow> bool" where
  "is_word_char ch = (isalnum_char ch \<or> ch = CHR 0x27 \<or> ch = CHR ''_'')"

definition flush :: "string \<Rightarrow> string list \<Rightarrow> string list" where
  "flush current tokens = (if current \<noteq> [] then tokens @ [current] else tokens)"

fun tokenize_loop :: "string \<Rightarrow> string \<Rightarrow> string list \<Rightarrow> string list" where
  "tokenize_loop [] current tokens = flush current tokens"
| "tokenize_loop (ch # rest) current tokens =
     (if is_word_char ch then tokenize_loop rest (current @ [ch]) tokens
      else tokenize_loop rest [] (flush current tokens @ [[ch]]))"

definition tokenize :: "string \<Rightarrow> string list" where
  "tokenize text = tokenize_loop text [] []"

subsection \<open>Low-level key actions\<close>

text \<open>\<open>self\<close>: the settings, whether a \<^verbatim>\<open>pynput\<close> controller exists
  (\<^verbatim>\<open>self.keyboard is not None\<close>) and whether a status callback was given.\<close>

record typer =
  settings :: settings
  keyboard :: bool
  ui_callback :: bool

definition type_char :: "typer \<Rightarrow> char \<Rightarrow> world \<Rightarrow> world" where
  "type_char self c w =
     (if \<not> keyboard self then w
      else if c = newline then emit (Release Enter) (emit (Press Enter) w)
      else emit (TypeText c) w)"

fun backspace_loop :: "nat \<Rightarrow> real \<Rightarrow> world \<Rightarrow> world outcome" where
  "backspace_loop 0 delay w = Inr w"
| "backspace_loop (Suc n) delay w =
     (case sleep delay (emit (Release Backspace) (emit (Press Backspace) w)) of
        Inl e \<Rightarrow> Inl e
      | Inr w' \<Rightarrow> backspace_loop n delay w')"

definition backspace :: "typer \<Rightarrow> nat \<Rightarrow> real \<Rightarrow> world \<Rightarrow> world outcome" where
  "backspace self n delay w =
     (if \<not> keyboard self then Inr w else backspace_loop n delay w)"

text \<open>The default \<^verbatim>\<open>delay=0.045\<close> of \<^verbatim>\<open>_backspace\<close>.\<close>

definition backspace_delay :: real where
  "backspace_delay = 45 / 1000"

subsection \<open>Core typing\<close>

fun type_slow :: "typer \<Rightarrow> string \<Rightarrow> real \<Rightarrow> world \<Rightarrow> world outcome" where
  "type_slow self [] base_wpm w = Inr w"
| "type_slow self (ch # rest) base_wpm w =
     (case is_set w of
        (stopped, w1) \<Rightarrow>
          if stopped then Inr w1
          else (case char_delay (settings self) base_wpm (type_char self ch w1) of
                  (d, w2) \<Rightarrow>
                    (case sleep d w2 of
                       Inl e \<Rightarrow> Inl e
                     | Inr w3 \<Rightarrow> type_slow self rest base_wpm w3)))"

subsection \<open>Pauses\<close>

definition pause_after_word :: "typer \<Rightarrow> string \<Rightarrow> world \<Rightarrow> world outcome" where
  "pause_after_word self word w =
     (if \<not> micro_pauses (settings self) then Inr w
      else
        (case (if 8 \<le> length word
               then (case uniform (8 / 100) (22 / 100) w of (d, w') \<Rightarrow> sleep d w')
               else Inr w) of
           Inl e \<Rightarrow> Inl e
         | Inr w1 \<Rightarrow>
             (case random_random w1 of
                (r, w2) \<Rightarrow>
                  if r < think_pause_chance (settings self)
                  then (case uniform (25 / 100) (9 / 10) w2 of (d, w3) \<Rightarrow> sleep d w3)
                  else Inr w2)))"

text \<open>\<^verbatim>\<open>ch in ".!?"\<close> on strings is the substring test.\<close>

definition contains :: "string \<Rightarrow> string \<Rightarrow> bool" where
  "contains hay needle =
     list_ex (\<lambda>i. take (length needle) (drop i hay) = needle) [0..<Suc (length hay)]"

definition pause_after_punct :: "typer \<Rightarrow> string \<Rightarrow> world \<Rightarrow> world outcome" where
  "pause_after_punct self ch w =
     (if \<not> micro_pauses (settings self) then Inr w
      else if contains ''.!?'' ch
      then (case uniform (25 / 100) (65 / 100) w of (d, w') \<Rightarrow> sleep d w')
      else if contains '',;:'' ch
      then (case uniform (8 / 100) (25 / 100) w of (d, w') \<Rightarrow> sleep d w')
      else Inr w)"

subsection \<open>Typo strategies\<close>

datatype typo_type = Substitution | Transposition | Duplicate | Omission

text \<open>\<^verbatim>\<open>random.choices\<close> with the weights 0.45, 0.25, 0.2, 0.1: the cumulative weights
  are bisected at \<^verbatim>\<open>random() * total\<close>.\<close>

definition choices_typo_type :: "world \<Rightarrow> typo_type \<times> world" where
  "choices_typo_type w =
     (case random_random w of
        (u, w') \<Rightarrow>
          (if u < 45 / 100 then Substitution
           else if u < 70 / 100 then Transposition
           else if u < 90 / 100 then Duplicate
           else Omission, w'))"

text \<open>What \<^verbatim>\<open>_maybe_letter_typo\<close> returns: \<^verbatim>\<open>(did_typo, typed_prefix, backspaces)\<close>.\<close>

type_synonym typo_outcome = "bool \<times> string \<times> nat"

definition no_typo :: typo_outcome where
  "no_typo = (False, [], 0)"

text \<open>\<^verbatim>\<open>time.sleep(random.uniform(*self.settings.correction_latency))\<close>.\<close>

definition realize_mistake :: "typer \<Rightarrow> world \<Rightarrow> world outcome" where
  "realize_mistake self w =
     (case uniform (fst (correction_latency (settings self)))
                   (snd (correction_latency (settings self))) w of
        (d, w') \<Rightarrow> sleep d w')"

text \<open>The four branches of \<^verbatim>\<open>_maybe_letter_typo\<close>, lines 177-214, one definition
  each. \<open>word ! i\<close> is always read in range: the word has at least 3 characters
  when a branch is entered, and \<open>i\<close> comes from \<^verbatim>\<open>randint\<close>.\<close>

text \<open>The three statements that the substitution, transposition and duplicate branches
  share: type the wrong prefix, sleep for the correction latency, backspace \<open>n\<close> times.\<close>

definition type_and_correct ::
  "typer \<Rightarrow> string \<Rightarrow> nat \<Rightarrow> real \<Rightarrow> world \<Rightarrow> world outcome" where
  "type_and_correct self typed n base_wpm w =
     (case type_slow self typed base_wpm w of
        Inl e \<Rightarrow> Inl e
      | Inr w1 \<Rightarrow>
          (case realize_mistake self w1 of
             Inl e \<Rightarrow> Inl e
           | Inr w2 \<Rightarrow> backspace self n backspace_delay w2))"

definition substitution_typo ::
  "typer \<Rightarrow> string \<Rightarrow> real \<Rightarrow> world \<Rightarrow> (typo_outcome \<times> world) outcome" where
  "substitution_typo self word base_wpm w =
     (case randint 0 (length word - 1) w of
        (i, w1) \<Rightarrow>
          (case adjacent_key (word ! i) w1 of
             (wrong, w2) \<Rightarrow>
               let typed = take i word @ [wrong]
               in (case type_and_correct self typed 1 base_wpm w2 of
                     Inl e \<Rightarrow> Inl e
                   | Inr w3 \<Rightarrow> Inr ((True, typed, 1), w3))))"

definition transposition_typo ::
  "typer \<Rightarrow> string \<Rightarrow> real \<Rightarrow> world \<Rightarrow> (typo_outcome \<times> world) outcome" where
  "transposition_typo self word base_wpm w =
     (case randint 0 (length word - 2) w of
        (i, w1) \<Rightarrow>
          if isspace_char (word ! i) \<or> isspace_char (word ! (i + 1)) then Inr (no_typo, w1)
          else
            let typed = take i word @ [word ! (i + 1)] @ [word ! i]
            in (case type_and_correct self typed 2 base_wpm w1 of
                  Inl e \<Rightarrow> Inl e
                | Inr w2 \<Rightarrow> Inr ((True, typed, 2), w2)))"

definition duplicate_typo ::
  "typer \<Rightarrow> string \<Rightarrow> real \<Rightarrow> world \<Rightarrow> (typo_outcome \<times> world) outcome" where
  "duplicate_typo self word base_wpm w =
     (case randint 0 (length word - 1) w of
        (i, w1) \<Rightarrow>
          let typed = take (i + 1) word @ [word ! i]
          in (case type_and_correct self typed 1 base_wpm w1 of
                Inl e \<Rightarrow> Inl e
              | Inr w2 \<Rightarrow> Inr ((True, typed, 1), w2)))"

definition omission_typo ::
  "typer \<Rightarrow> string \<Rightarrow> real \<Rightarrow> world \<Rightarrow> (typo_outcome \<times> world) outcome" where
  "omission_typo self word base_wpm w =
     (case randint 1 (length word - 2) w of
        (i, w1) \<Rightarrow>
          let typed = take i word
          in (case type_and_correct self typed (length typed) base_wpm w1 of
                Inl e \<Rightarrow> Inl e
              | Inr w2 \<Rightarrow>
                  (case type_slow self (take i word) base_wpm w2 of
                     Inl e \<Rightarrow> Inl e
                   | Inr w3 \<Rightarrow> Inr ((True, take i word, length typed), w3))))"

definition maybe_letter_typo ::
  "typer \<Rightarrow> string \<Rightarrow> real \<Rightarrow> world \<Rightarrow> (typo_outcome \<times> world) outcome" where
  "maybe_letter_typo self word base_wpm w =
     (if \<not> enable_corrections (settings self) then Inr (no_typo, w)
      else if length word < 3 then Inr (no_typo, w)
      else
        (case random_random w of
           (r, w1) \<Rightarrow>
             if letter_typo_rate (settings self) \<le> r then Inr (no_typo, w1)
             else
               (case choices_typo_type w1 of
                  (typo_type, w2) \<Rightarrow>
                    if typo_type = Substitution then substitution_typo self word base_wpm w2
                    else if typo_type = Transposition \<and> 4 \<le> length word
                    then transposition_typo self word base_wpm w2
                    else if typo_type = Duplicate then duplicate_typo self word base_wpm w2
                    else if typo_type = Omission then omission_typo self word base_wpm w2
                    else Inr (no_typo, w2))))"

text \<open>\<^verbatim>\<open>token in PUNCTUATION_SET\<close>: the token is one character of the set.\<close>

definition in_punctuation_set :: "string \<Rightarrow> bool" where
  "in_punctuation_set token =
     (case token of [c] \<Rightarrow> c \<in> set PUNCTUATION_SET | _ \<Rightarrow> False)"

text \<open>\<^verbatim>\<open>list(PUNCTUATION_SET - {punct})\<close>: Python fixes no order for the list, and
  \<^verbatim>\<open>random.choice\<close> can return any member of it.\<close>

definition maybe_punct_typo ::
  "typer \<Rightarrow> string \<Rightarrow> real \<Rightarrow> world \<Rightarrow> (bool \<times> world) outcome" where
  "maybe_punct_typo self punct base_wpm w =
     (if \<not> enable_corrections (settings self) then Inr (False, w)
      else if \<not> in_punctuation_set punct then Inr (False, w)
      else
        (case random_random w of
           (r, w1) \<Rightarrow>
             if punct_typo_rate (settings self) \<le> r then Inr (False, w1)
             else
               (case choice (filter (\<lambda>c. [c] \<noteq> punct) PUNCTUATION_SET) w1 of
                  (wrong, w2) \<Rightarrow>
                    (case type_and_correct self [wrong] 1 base_wpm w2 of
                       Inl e \<Rightarrow> Inl e
                     | Inr w3 \<Rightarrow> Inr (True, w3)))))"

subsection \<open>The session\<close>

text \<open>The test of line 273 that sends a token to the word branch:
  \<^verbatim>\<open>token.isalnum() or ("'" in token and token.replace("'", "").isalnum())\<close>.\<close>

definition is_word :: "string \<Rightarrow> bool" where
  "is_word token =
     (isalnum token \<or>
      (CHR 0x27 \<in> set token \<and> isalnum (replace_str [CHR 0x27] [] token)))"

text \<open>The word branch (lines 275-281) and the punctuation branch (lines 284-288) of the
  loop of \<^verbatim>\<open>type_text\<close>. The first component says whether the branch left the loop by
  \<^verbatim>\<open>break\<close>.\<close>

definition word_branch ::
  "typer \<Rightarrow> string \<Rightarrow> real \<Rightarrow> world \<Rightarrow> (bool \<times> world) outcome" where
  "word_branch self token base_wpm w =
     (case maybe_letter_typo self token base_wpm w of
        Inl e \<Rightarrow> Inl e
      | Inr ((did_typo, typed_prefix, backspaces), w2) \<Rightarrow>
          (case is_set w2 of
             (stopped, w3) \<Rightarrow>
               if stopped then Inr (True, w3)
               else
                 let remaining = (if did_typo then drop (length typed_prefix) token else token)
                 in (case type_slow self remaining base_wpm w3 of
                       Inl e \<Rightarrow> Inl e
                     | Inr w4 \<Rightarrow>
                         (case pause_after_word self token w4 of
                            Inl e \<Rightarrow> Inl e
                          | Inr w5 \<Rightarrow> Inr (False, w5)))))"

definition punct_branch ::
  "typer \<Rightarrow> string \<Rightarrow> real \<Rightarrow> world \<Rightarrow> (bool \<times> world) outcome" where
  "punct_branch self token base_wpm w =
     (case maybe_punct_typo self token base_wpm w of
        Inl e \<Rightarrow> Inl e
      | Inr (did_punct_typo, w2) \<Rightarrow>
          (case is_set w2 of
             (stopped, w3) \<Rightarrow>
               if stopped then Inr (True, w3)
               else
                 (case type_slow self token base_wpm w3 of
                    Inl e \<Rightarrow> Inl e
                  | Inr w4 \<Rightarrow>
                      (case pause_after_punct self token w4 of
                         Inl e \<Rightarrow> Inl e
                       | Inr w5 \<Rightarrow> Inr (False, w5)))))"

text \<open>One round of the \<^verbatim>\<open>while\<close> loop of \<^verbatim>\<open>type_text\<close> per token. The flag is read
  only while tokens are left (\<^verbatim>\<open>i < len(tokens) and not ...\<close>).\<close>

fun type_tokens :: "typer \<Rightarrow> string list \<Rightarrow> world \<Rightarrow> world outcome" where
  "type_tokens self [] w = Inr w"
| "type_tokens self (token # rest) w =
     (case is_set w of
        (stopped, w0) \<Rightarrow>
          if stopped then Inr w0
          else
            (case sample_wpm (settings self) w0 of
               (base_wpm, w1) \<Rightarrow>
                 if strip_is_empty token
                 then
                   (case type_slow self token base_wpm w1 of
                      Inl e \<Rightarrow> Inl e
                    | Inr w2 \<Rightarrow> type_tokens self rest w2)
                 else if is_word token
                 then
                   (case word_branch self token base_wpm w1 of
                      Inl e \<Rightarrow> Inl e
                    | Inr (broke, w2) \<Rightarrow> if broke then Inr w2 else type_tokens self rest w2)
                 else if in_punctuation_set token
                 then
                   (case punct_branch self token base_wpm w1 of
                      Inl e \<Rightarrow> Inl e
                    | Inr (broke, w2) \<Rightarrow> if broke then Inr w2 else type_tokens self rest w2)
                 else
                   (case type_slow self token base_wpm w1 of
                      Inl e \<Rightarrow> Inl e
                    | Inr w2 \<Rightarrow> type_tokens self rest w2)))"

definition type_text :: "typer \<Rightarrow> string \<Rightarrow> world \<Rightarrow> world outcome" where
  "type_text self text w =
     (if \<not> keyboard self then Inl (RuntimeError, w)
      else type_tokens self (tokenize (normalize_newlines text)) w)"

subsection \<open>Public controls\<close>

definition post_status :: "typer \<Rightarrow> status \<Rightarrow> world \<Rightarrow> world" where
  "post_status self msg w = (if ui_callback self then emit (Status msg) w else w)"

text \<open>The countdown of \<^verbatim>\<open>run\<close>, over \<^verbatim>\<open>range(countdown, 0, -1)\<close>.\<close>

fun countdown_loop :: "typer \<Rightarrow> int list \<Rightarrow> world \<Rightarrow> world outcome" where
  "countdown_loop self [] w = Inr w"
| "countdown_loop self (sec # secs) w =
     (case sleep 1 (emit Beep (post_status self (Typing_starts_in sec) w)) of
        Inl e \<Rightarrow> Inl e
      | Inr w' \<Rightarrow> countdown_loop self secs w')"

text \<open>The body \<^verbatim>\<open>run\<close> of the background thread. An exception ends the thread:
  the result is then that exception with the world as the thread left it.\<close>

definition run :: "typer \<Rightarrow> string \<Rightarrow> int \<Rightarrow> world \<Rightarrow> world outcome" where
  "run self text countdown w =
     (case countdown_loop self (rev [1..countdown]) (post_status self Click_into_target w) of
        Inl e \<Rightarrow> Inl e
      | Inr w2 \<Rightarrow>
          (case type_text self text (post_status self Typing w2) of
             Inl e \<Rightarrow> Inl e
           | Inr w4 \<Rightarrow> Inr (post_status self Done_or_stopped w4)))"

text \<open>\<^verbatim>\<open>start\<close> clears the stop flag (from here on \<open>stop_after\<close> counts), creates the
  thread whose target is \<^verbatim>\<open>run\<close>, starts it and returns it. It has no \<^verbatim>\<open>raise\<close>: the
  result is always a thread.\<close>

datatype thread = Thread string int

definition start :: "typer \<Rightarrow> string \<Rightarrow> int \<Rightarrow> error + thread" where
  "start self text countdown = Inr (Thread text countdown)"

fun thread_body :: "typer \<Rightarrow> thread \<Rightarrow> world \<Rightarrow> world outcome" where
  "thread_body self (Thread text countdown) w = run self text countdown w"

subsection \<open>The settings panel\<close>

text \<open>The entries of the panel that \<^verbatim>\<open>_read_settings\<close> and \<^verbatim>\<open>on_start\<close> read. A
  numeric entry is \<open>None\<close> when \<^verbatim>\<open>float(...)\<close> raises ValueError on its text.\<close>

record form =
  textbox :: string
  min_wpm_var :: "real option"
  max_wpm_var :: "real option"
  letter_typo_var :: "real option"
  punct_typo_var :: "real option"
  think_var :: "real option"
  jitter_var :: "real option"
  corr_var :: bool
  pause_var :: bool

datatype dialog =
    Empty_text
  | Missing_dependency
  | Invalid_settings
  | Invalid_WPM

text \<open>\<^verbatim>\<open>_read_settings\<close>: the dialogs it shows and the settings, or the exception.\<close>

definition read_settings :: "form \<Rightarrow> dialog list \<times> (error + settings)" where
  "read_settings f =
     (case (min_wpm_var f, max_wpm_var f, letter_typo_var f, punct_typo_var f,
            think_var f, jitter_var f) of
        (Some mn, Some mx, Some ltr, Some ptr, Some think, Some jit) \<Rightarrow>
          if mn \<le> 0 \<or> mx < mn then ([Invalid_WPM], Inl ValueError)
          else ([], Inr \<lparr>min_wpm = mn, max_wpm = mx,
                          letter_typo_rate = ltr / 100, punct_typo_rate = ptr / 100,
                          enable_corrections = corr_var f, micro_pauses = pause_var f,
                          think_pause_chance = think / 100, jitter_std = jit / 100,
                          correction_latency = (15 / 100, 55 / 100)\<rparr>)
      | _ \<Rightarrow> ([Invalid_settings], Inl ValueError))"

definition HumanTyper :: "bool \<Rightarrow> settings \<Rightarrow> bool \<Rightarrow> typer" where
  "HumanTyper controller s callback =
     \<lparr>settings = s, keyboard = controller, ui_callback = callback\<rparr>"

text \<open>\<^verbatim>\<open>App.on_start\<close>; \<open>controller\<close> says whether \<^verbatim>\<open>pynput\<close> was imported
  (\<^verbatim>\<open>Controller is not None\<close>). The result: the dialogs shown, and the typer with the
  thread it started, if any.\<close>

definition on_start :: "bool \<Rightarrow> form \<Rightarrow> dialog list \<times> (typer \<times> thread) option" where
  "on_start controller f =
     (if strip_is_empty (textbox f) then ([Empty_text], None)
      else if \<not> controller then ([Missing_dependency], None)
      else
        (case read_settings f of
           (shown, Inl e) \<Rightarrow> (shown, None)
         | (shown, Inr s) \<Rightarrow>
             let self = HumanTyper controller s True
             in case start self (textbox f) 3 of
                  Inl e \<Rightarrow> (shown, None)
                | Inr t \<Rightarrow> (shown, Some (self, t))))"

subsection \<open>What the receiving application shows\<close>

text \<open>The text field that receives the key actions: a typed character and Enter append,
  Backspace deletes the last character if there is one.\<close>

fun screen_step :: "string \<Rightarrow> event \<Rightarrow> string" where
  "screen_step shown (TypeText c) = shown @ [c]"
| "screen_step shown (Press Enter) = shown @ [newline]"
| "screen_step shown (Press Backspace) = butlast shown"
| "screen_step shown ev = shown"

definition visible :: "string \<Rightarrow> event list \<Rightarrow> string" where
  "visible shown evs = foldl screen_step shown evs"

fun is_key_action :: "event \<Rightarrow> bool" where
  "is_key_action (Press k) = True"
| "is_key_action (Release k) = True"
| "is_key_action (TypeText c) = True"
| "is_key_action ev = False"

definition key_actions :: "event list \<Rightarrow> event list" where
  "key_actions evs = filter is_key_action evs"




text \<open>The events of posting a status (none without a callback) and of a countdown over
  the given seconds: per second the status, the beep and a sleep of one second.\<close>

definition status_events :: "typer \<Rightarrow> status \<Rightarrow> event list" where
  "status_events self msg = (if ui_callback self then [Status msg] else [])"

definition countdown_events :: "typer \<Rightarrow> int list \<Rightarrow> event list" where
  "countdown_events self secs =
     concat (map (\<lambda>sec. status_events self (Typing_starts_in sec) @ [Beep, Sleep 1]) secs)"

subsection \<open>Sample worlds\<close>

text \<open>A world with nothing emitted yet, an exhausted random source (every draw is 0) and
  no stop request; and the same with chosen draws.\<close>

definition quiet_world :: world where
  "quiet_world = \<lparr>trace = [], floats = [], ints = [], polls = 0, stop_after = None\<rparr>"

definition world_with :: "real list \<Rightarrow> nat list \<Rightarrow> nat option \<Rightarrow> world" where
  "world_with fs ns stop = \<lparr>trace = [], floats = fs, ints = ns, polls = 0, stop_after = stop\<rparr>"




text \<open>Draws that fire a letter typo and select the transposition (0.5).\<close>

definition transposition_world :: world where
  "transposition_world = world_with [0, 1 / 2] [0] None"

text \<open>The panel as \<^verbatim>\<open>_build_ui\<close> fills it from the default settings, with a text.\<close>

definition default_form :: form where
  "default_form =
     \<lparr>textbox = ''hi'', min_wpm_var = Some 45, max_wpm_var = Some 70,
      letter_typo_var = Some 3, punct_typo_var = Some 2, think_var = Some 8,
      jitter_var = Some 25, corr_var = True, pause_var = True\<rparr>"

definition default_typer :: typer where
  "default_typer = \<lparr>settings = default_settings, keyboard = True, ui_callback = False\<rparr>"

section \<open>Properties\<close>

subsection \<open>Tokenizer\<close>

lemma concat_flush: "concat (flush current tokens) = concat tokens @ current"
  by (simp add: flush_def)

lemma concat_tokenize_loop:
  "concat (tokenize_loop s current tokens) = concat tokens @ current @ s"
  by (induction s arbitrary: current tokens) (simp_all add: concat_flush)

text \<open>
  Claim C3. For every input text, the tokens that \<^verbatim>\<open>type_text\<close> builds from the text
  with its line endings normalised (\<^verbatim>\<open>\r\n\<close> and \<^verbatim>\<open>\r\<close> replaced by \<^verbatim>\<open>\n\<close>),
  concatenated in order, are that normalised text again. The proof uses nothing about
  which characters count as alphanumeric.
\<close>

theorem tokenize_round_trip:
  "concat (tokenize (normalize_newlines text)) = normalize_newlines text"
  by (simp add: tokenize_def concat_tokenize_loop)

subsection \<open>Delay model\<close>

lemma clamp_delay_lower: "1 / 1000 \<le> clamp_delay base jittered"
  by (simp add: clamp_delay_def)

lemma clamp_delay_upper: "1 / 1000 \<le> base * 3 \<Longrightarrow> clamp_delay base jittered \<le> base * 3"
  by (simp add: clamp_delay_def)

lemma base_delay_large: "1 \<le> wpm \<Longrightarrow> wpm \<le> 36000 \<Longrightarrow> 1 / 1000 \<le> secs_per_char_for_wpm wpm * 3"
  by (simp add: secs_per_char_for_wpm_def max_def field_simps)

text \<open>
  Claim C8, as amended. For every WPM and every jitter sample the delay of
  \<^verbatim>\<open>_char_delay\<close> is at least 0.001 and at most the larger of 0.001 and three base
  delays; for a WPM between 1 and 36000, where three base delays are at least 0.001, it
  lies in the closed interval from 0.001 to three base delays.
\<close>

theorem char_delay_bounds:
  "1 / 1000 \<le> fst (char_delay s wpm w) \<and>
   fst (char_delay s wpm w) \<le> max (1 / 1000) (secs_per_char_for_wpm wpm * 3) \<and>
   (1 \<le> wpm \<and> wpm \<le> 36000 \<longrightarrow>
      fst (char_delay s wpm w) \<le> secs_per_char_for_wpm wpm * 3)"
proof -
  obtain j w' where g: "gauss (secs_per_char_for_wpm wpm)
      (secs_per_char_for_wpm wpm * jitter_std s) w = (j, w')"
    by (cases "gauss (secs_per_char_for_wpm wpm) (secs_per_char_for_wpm wpm * jitter_std s) w")
  then have d: "fst (char_delay s wpm w) = clamp_delay (secs_per_char_for_wpm wpm) j"
    by (simp add: char_delay_def Let_def)
  have "clamp_delay (secs_per_char_for_wpm wpm) j
          \<le> max (1 / 1000) (secs_per_char_for_wpm wpm * 3)"
    by (simp add: clamp_delay_def)
  with d show ?thesis
    using clamp_delay_lower clamp_delay_upper base_delay_large by simp
qed

theorem char_delay_bounds_witness:
  "(1::real) \<le> 60 \<and> (60::real) \<le> 36000 \<and>
   1 / 1000 \<le> fst (char_delay default_settings 60 quiet_world) \<and>
   fst (char_delay default_settings 60 quiet_world) \<le> secs_per_char_for_wpm 60 * 3"
  using char_delay_bounds [of default_settings 60 quiet_world] by simp

text \<open>
  At 48000 words per minute and jitter 0 the base delay is 0.00025 seconds, three of them
  are 0.00075, and the delay is 0.001: above the upper end of the claimed interval.
\<close>

theorem char_delay_bounds_counterexample:
  "(1::real) \<le> 48000 \<and>
   0 \<le> jitter_std (default_settings\<lparr>jitter_std := 0\<rparr>) \<and>
   fst (char_delay (default_settings\<lparr>jitter_std := 0\<rparr>) 48000 quiet_world) = 1 / 1000 \<and>
   secs_per_char_for_wpm 48000 * 3 < 1 / 1000"
  by (simp add: char_delay_def clamp_delay_def secs_per_char_for_wpm_def gauss_def
      next_float_def quiet_world_def default_settings_def)

subsection \<open>What each step leaves unchanged\<close>


lemma next_float_simps:
  "trace (snd (next_float w)) = trace w"
  "stop_after (snd (next_float w)) = stop_after w"
  "ints (snd (next_float w)) = ints w"
  by (simp_all add: next_float_def split: list.split)




lemma random_random_simps:
  "trace (snd (random_random w)) = trace w"
  "stop_after (snd (random_random w)) = stop_after w"
  "ints (snd (random_random w)) = ints w"
  by (simp_all add: random_random_def split_beta next_float_simps)





lemma char_delay_nonneg: "0 \<le> fst (char_delay s wpm w)"
proof -
  let ?base = "secs_per_char_for_wpm wpm"
  let ?j = "fst (gauss ?base (?base * jitter_std s) w)"
  have "fst (char_delay s wpm w) = clamp_delay ?base ?j"
    by (simp add: char_delay_def Let_def split_beta)
  moreover have "1 / 1000 \<le> clamp_delay ?base ?j"
    by (rule clamp_delay_lower)
  ultimately show ?thesis
    by linarith
qed

lemma sleep_ok: "0 \<le> d \<Longrightarrow> sleep d w = Inr (emit (Sleep d) w)"
  by (simp add: sleep_def)

lemma sleep_raises: "sleep d w = Inl (e, w') \<Longrightarrow> e = ValueError"
  by (simp add: sleep_def split: if_splits)

lemma key_actions_append: "key_actions (xs @ ys) = key_actions xs @ key_actions ys"
  by (simp add: key_actions_def)




subsection \<open>Runs that nobody stops and no sleep ends\<close>








subsection \<open>The visible text\<close>






subsection \<open>The omission path\<close>



subsection \<open>The only exception of the typo injector is the ValueError of a sleep\<close>

lemma type_slow_raises: "type_slow self s wpm w = Inl (e, w') \<Longrightarrow> e = ValueError"
proof (induction s arbitrary: w)
  case Nil
  then show ?case by simp
next
  case (Cons ch rest)
  let ?w1 = "snd (is_set w)"
  let ?w2 = "snd (char_delay (settings self) wpm (type_char self ch ?w1))"
  let ?d = "fst (char_delay (settings self) wpm (type_char self ch ?w1))"
  have "\<not> fst (is_set w)"
    using Cons.prems by (auto simp add: split_beta split: if_splits)
  then have "type_slow self rest wpm (emit (Sleep ?d) ?w2) = Inl (e, w')"
    using Cons.prems by (simp add: split_beta sleep_ok char_delay_nonneg)
  then show ?case
    by (rule Cons.IH)
qed

lemma backspace_loop_raises: "backspace_loop n d w = Inl (e, w') \<Longrightarrow> e = ValueError"
proof (induction n arbitrary: w)
  case 0
  then show ?case by simp
next
  case (Suc n)
  then show ?case
    by (auto simp add: sleep_def split: if_splits sum.splits)
qed

lemma backspace_raises: "backspace self n d w = Inl (e, w') \<Longrightarrow> e = ValueError"
  by (auto simp add: backspace_def split: if_splits dest: backspace_loop_raises)

lemma realize_mistake_raises: "realize_mistake self w = Inl (e, w') \<Longrightarrow> e = ValueError"
  by (auto simp add: realize_mistake_def split_beta dest: sleep_raises)

lemma type_and_correct_raises:
  "type_and_correct self typed n wpm w = Inl (e, w') \<Longrightarrow> e = ValueError"
  by (auto simp add: type_and_correct_def split: sum.splits
      dest: type_slow_raises realize_mistake_raises backspace_raises)

lemma substitution_typo_cases:
  "case substitution_typo self word wpm w of
     Inl (e, w') \<Rightarrow> e = ValueError
   | Inr (out, w') \<Rightarrow> snd (snd out) = 1"
  by (auto simp add: substitution_typo_def split_beta Let_def split: sum.splits
      dest: type_and_correct_raises)

lemma duplicate_typo_cases:
  "case duplicate_typo self word wpm w of
     Inl (e, w') \<Rightarrow> e = ValueError
   | Inr (out, w') \<Rightarrow> snd (snd out) = 1"
  by (auto simp add: duplicate_typo_def split_beta Let_def split: sum.splits
      dest: type_and_correct_raises)

lemma omission_typo_cases:
  "case omission_typo self word wpm w of
     Inl (e, w') \<Rightarrow> e = ValueError
   | Inr (out, w') \<Rightarrow> snd (snd out) \<le> fst (randint 1 (length word - 2) w)"
  by (auto simp add: omission_typo_def split_beta Let_def split: sum.splits
      dest: type_and_correct_raises type_slow_raises)

lemma randint_degenerate: "b \<le> a \<Longrightarrow> fst (randint a b w) = a"
  by (simp add: randint_def split_beta)

subsection \<open>Typo eligibility\<close>

text \<open>
  Claim C9. For a word of fewer than 3 characters \<^verbatim>\<open>_maybe_letter_typo\<close> returns
  \<^verbatim>\<open>(False, "", 0)\<close> and leaves the world as it was, whatever the letter typo rate:
  nothing is drawn and nothing is typed. For a word of fewer than 4 characters, when the
  weighted choice selects the transposition, the result is \<^verbatim>\<open>(False, "", 0)\<close> and
  no event is emitted; and whatever is drawn, the call either ends in the ValueError of
  a sleep or returns a result that does not carry the two backspaces of a transposition.
\<close>

theorem short_word_never_typo:
  "(length word < 3 \<longrightarrow> maybe_letter_typo self word wpm w = Inr ((False, [], 0), w)) \<and>
   (length word < 4 \<longrightarrow>
      fst (choices_typo_type (snd (random_random w))) = Transposition \<longrightarrow>
      (\<exists>w'. maybe_letter_typo self word wpm w = Inr ((False, [], 0), w') \<and>
            trace w' = trace w)) \<and>
   (length word < 4 \<longrightarrow>
      (case maybe_letter_typo self word wpm w of
         Inl (e, w') \<Rightarrow> e = ValueError
       | Inr (out, w') \<Rightarrow> snd (snd out) < 2))"
proof -
  have p1: "maybe_letter_typo self word wpm w = Inr ((False, [], 0), w)" if "length word < 3"
    using that by (simp add: maybe_letter_typo_def no_typo_def)
  have p2: "\<exists>w'. maybe_letter_typo self word wpm w = Inr ((False, [], 0), w') \<and>
      trace w' = trace w"
    if short: "length word < 4"
      and kind: "fst (choices_typo_type (snd (random_random w))) = Transposition"
  proof -
    have "maybe_letter_typo self word wpm w = Inr (no_typo, w) \<or>
          maybe_letter_typo self word wpm w = Inr (no_typo, snd (random_random w)) \<or>
          maybe_letter_typo self word wpm w =
            Inr (no_typo, snd (choices_typo_type (snd (random_random w))))"
      using short kind by (simp add: maybe_letter_typo_def split_beta)
    then show ?thesis
      by (auto simp add: no_typo_def choices_typo_type_def split_beta random_random_simps)
  qed
  have p3: "case maybe_letter_typo self word wpm w of
         Inl (e, w') \<Rightarrow> e = ValueError
       | Inr (out, w') \<Rightarrow> snd (snd out) < 2"
    if short: "length word < 4"
  proof -
    have one: "fst (randint 1 (length word - 2) w') = 1" for w'
      using short by (simp add: randint_degenerate)
    have sub: "case substitution_typo self word wpm w' of
         Inl (e, w'') \<Rightarrow> e = ValueError
       | Inr (out, w'') \<Rightarrow> snd (snd out) < 2" for w'
      using substitution_typo_cases [where self = self and word = word and wpm = wpm and w = w'] by (auto split: sum.splits)
    have dup: "case duplicate_typo self word wpm w' of
         Inl (e, w'') \<Rightarrow> e = ValueError
       | Inr (out, w'') \<Rightarrow> snd (snd out) < 2" for w'
      using duplicate_typo_cases [where self = self and word = word and wpm = wpm and w = w'] by (auto split: sum.splits)
    have om: "case omission_typo self word wpm w' of
         Inl (e, w'') \<Rightarrow> e = ValueError
       | Inr (out, w'') \<Rightarrow> snd (snd out) < 2" for w'
      using omission_typo_cases [where self = self and word = word and wpm = wpm and w = w'] one [of w'] by (auto split: sum.splits)
    show ?thesis
      using short sub dup om
      by (simp add: maybe_letter_typo_def split_beta no_typo_def)
  qed
  show ?thesis
    using p1 p2 p3 by blast
qed

theorem short_word_never_typo_witness:
  "length ''hi'' < 3 \<and>
   maybe_letter_typo default_typer ''hi'' 45 transposition_world
     = Inr ((False, [], 0), transposition_world) \<and>
   length ''the'' < 4 \<and>
   fst (choices_typo_type (snd (random_random transposition_world))) = Transposition \<and>
   (\<exists>w'. maybe_letter_typo default_typer ''the'' 45 transposition_world
            = Inr ((False, [], 0), w') \<and>
      trace w' = trace transposition_world) \<and>
   (case maybe_letter_typo default_typer ''the'' 45 transposition_world of
      Inl (e, w') \<Rightarrow> e = ValueError
    | Inr (out, w') \<Rightarrow> snd (snd out) < 2)"
proof -
  have kind: "fst (choices_typo_type (snd (random_random transposition_world))) = Transposition"
    by (simp add: choices_typo_type_def random_random_def next_float_def
        transposition_world_def world_with_def)
  show ?thesis
    using short_word_never_typo [of "''hi''" default_typer 45 transposition_world]
      short_word_never_typo [of "''the''" default_typer 45 transposition_world] kind
    by simp
qed

subsection \<open>Evaluating the session on sample inputs\<close>

lemma backspace_loop_numeral:
  "backspace_loop (numeral k) delay w =
     (case sleep delay (emit (Release Backspace) (emit (Press Backspace) w)) of
        Inl e \<Rightarrow> Inl e
      | Inr w' \<Rightarrow> backspace_loop (pred_numeral k) delay w')"
  by (simp add: numeral_eq_Suc)

lemmas session_defs =
  type_text_def tokenize_def normalize_newlines_def carriage_return_def newline_def
  is_word_char_def isalnum_char_def isupper_def ord_def flush_def
  default_typer_def default_settings_def world_with_def quiet_world_def is_set_def
  sample_wpm_def uniform_def next_float_def next_int_def strip_is_empty_def isspace_char_def
  is_word_def isalnum_def word_branch_def punct_branch_def maybe_letter_typo_def
  random_random_def choices_typo_type_def substitution_typo_def transposition_typo_def
  duplicate_typo_def omission_typo_def type_and_correct_def randint_def adjacent_key_def
  choice_def QWERTY_NEIGHBORS_def lower_def upper_def keep_case_def realize_mistake_def
  backspace_def backspace_delay_def sleep_def emit_def type_char_def char_delay_def gauss_def
  clamp_delay_def secs_per_char_for_wpm_def pause_after_word_def visible_def key_actions_def
  no_typo_def Let_def backspace_loop_numeral in_punctuation_set_def PUNCTUATION_SET_def
  maybe_punct_typo_def pause_after_punct_def contains_def

text \<open>
  Claim C1, on the code. The word "their" is typed with a typo forced at index 1. After
  the substitution (neighbour \<open>y\<close> of \<open>h\<close>) the text shown is "teir", after the
  transposition "tir", after the duplication "thir": \<^verbatim>\<open>type_text\<close> resumes at
  \<^verbatim>\<open>token[len(typed_prefix):]\<close>, which counts the characters that the backspaces
  have deleted as typed. Only the omission path (claim C10) restores the word.
\<close>

theorem typo_paths_lose_characters:
  "(case type_text default_typer ''their'' (world_with [0, 0, 0] [1, 0] None) of
      Inl e \<Rightarrow> False | Inr w \<Rightarrow> visible [] (trace w) = ''teir'') \<and>
   (case type_text default_typer ''their'' (world_with [0, 0, 1 / 2] [1] None) of
      Inl e \<Rightarrow> False | Inr w \<Rightarrow> visible [] (trace w) = ''tir'') \<and>
   (case type_text default_typer ''their'' (world_with [0, 0, 8 / 10] [1] None) of
      Inl e \<Rightarrow> False | Inr w \<Rightarrow> visible [] (trace w) = ''thir'')"
  by (simp add: session_defs)

text \<open>
  Claim C2, on the code. The word "hello" with the substitution forced at index 0 and the
  neighbour \<open>g\<close>: the session types \<open>g\<close>, sleeps for the correction latency,
  backspaces once and then types "ello", not "hello"; the text shown is "ello".
\<close>

theorem hello_substitution_trace:
  "(case type_text default_typer ''hello'' (world_with [] [0, 2] None) of
      Inl e \<Rightarrow> False
    | Inr w \<Rightarrow>
        trace w =
          [TypeText CHR ''g'', Sleep (4 / 15), Sleep (3 / 20),
           Press Backspace, Release Backspace, Sleep (9 / 200),
           TypeText CHR ''e'', Sleep (4 / 15), TypeText CHR ''l'', Sleep (4 / 15),
           TypeText CHR ''l'', Sleep (4 / 15), TypeText CHR ''o'', Sleep (4 / 15),
           Sleep (1 / 4)] \<and>
        visible [] (trace w) = ''ello'')"
  by (simp add: session_defs)

text \<open>
  Claim C4, on the code. \<^verbatim>\<open>_backspace\<close> does not read the stop flag. First run: the
  stop is requested after the reading at the head of the token loop; \<^verbatim>\<open>_type_slow\<close>
  reads the flag, sees it set and types nothing, and the substitution path still presses
  and releases Backspace, which deletes a character the session never typed. Second run:
  the stop is requested after the first character of an omission at index 3; one
  character was typed and three backspaces follow.
\<close>

theorem backspace_after_cancellation:
  "(case type_text default_typer ''hello'' (world_with [] [0, 2] (Some 1)) of
      Inl e \<Rightarrow> False
    | Inr w \<Rightarrow>
        trace w = [Sleep (3 / 20), Press Backspace, Release Backspace, Sleep (9 / 200)] \<and>
        polls w = 3 \<and>
        visible ''abc'' (trace w) = ''ab'') \<and>
   (case type_text default_typer ''hello'' (world_with [0, 0, 95 / 100] [2] (Some 2)) of
      Inl e \<Rightarrow> False
    | Inr w \<Rightarrow>
        key_actions (trace w) =
          [TypeText CHR ''h'', Press Backspace, Release Backspace,
           Press Backspace, Release Backspace, Press Backspace, Release Backspace] \<and>
        visible ''abc'' (trace w) = ''a'')"
  by (simp add: session_defs)

text \<open>
  Claim C5, on the code. The tokenizer keeps "foo\_bar" as one token, and the test of line
  273 does not take it for a word: it is typed by the last branch, with no typo draw and
  no pause, in a world whose draws give "foobar" a substitution typo and a think pause.
\<close>

theorem underscore_token_not_a_word:
  "tokenize (normalize_newlines ''foo_bar'') = [''foo_bar''] \<and>
   is_word ''foo_bar'' = False \<and>
   (case type_text default_typer ''foo_bar'' quiet_world of
      Inl e \<Rightarrow> False
    | Inr w \<Rightarrow>
        trace w =
          [TypeText CHR ''f'', Sleep (4 / 15), TypeText CHR ''o'', Sleep (4 / 15),
           TypeText CHR ''o'', Sleep (4 / 15), TypeText CHR ''_'', Sleep (4 / 15),
           TypeText CHR ''b'', Sleep (4 / 15), TypeText CHR ''a'', Sleep (4 / 15),
           TypeText CHR ''r'', Sleep (4 / 15)]) \<and>
   (case type_text default_typer ''foobar'' quiet_world of
      Inl e \<Rightarrow> False
    | Inr w \<Rightarrow>
        trace w =
          [TypeText CHR ''r'', Sleep (4 / 15), Sleep (3 / 20),
           Press Backspace, Release Backspace, Sleep (9 / 200),
           TypeText CHR ''o'', Sleep (4 / 15), TypeText CHR ''o'', Sleep (4 / 15),
           TypeText CHR ''b'', Sleep (4 / 15), TypeText CHR ''a'', Sleep (4 / 15),
           TypeText CHR ''r'', Sleep (4 / 15), Sleep (1 / 4)])"
  by (simp add: session_defs)


subsection \<open>Pre-flight checks\<close>

lemma post_status_eq:
  "post_status self msg w = w\<lparr>trace := trace w @ status_events self msg\<rparr>"
  by (simp add: post_status_def status_events_def emit_def)

lemma countdown_loop_eq:
  "countdown_loop self secs w = Inr (w\<lparr>trace := trace w @ countdown_events self secs\<rparr>)"
proof (induction secs arbitrary: w)
  case Nil
  then show ?case by (simp add: countdown_events_def)
next
  case (Cons sec secs)
  let ?w1 = "w\<lparr>trace := trace w @ status_events self (Typing_starts_in sec) @ [Beep, Sleep 1]\<rparr>"
  have "sleep 1 (emit Beep (post_status self (Typing_starts_in sec) w)) = Inr ?w1"
    by (simp add: sleep_def emit_def post_status_eq)
  then have "countdown_loop self (sec # secs) w = countdown_loop self secs ?w1"
    by simp
  then show ?case
    by (simp add: Cons.IH countdown_events_def)
qed

lemma key_actions_status_events: "key_actions (status_events self msg) = []"
  by (simp add: status_events_def key_actions_def)

lemma key_actions_countdown_events: "key_actions (countdown_events self secs) = []"
  by (induction secs) (simp_all add: countdown_events_def status_events_def key_actions_def)

text \<open>
  Claim C6, as amended. \<^verbatim>\<open>on_start\<close> never starts a session whose minimum WPM entry
  is a number that is not positive, or whose maximum WPM entry is a number below the
  minimum: whatever the text, the controller and the other entries are, it shows one
  dialog and returns without a typer or a thread. When all six numeric entries parse,
  \<^verbatim>\<open>_read_settings\<close> shows the invalid-WPM dialog and raises ValueError for such a
  range; when moreover the text is not blank and the controller is there, that is the
  dialog of \<^verbatim>\<open>on_start\<close>. Probabilities and jitter are not checked: when the text is
  not blank, the controller is there, all six numeric entries parse and the WPM range
  is valid, \<^verbatim>\<open>on_start\<close> constructs the typer from the entries as they are and starts
  the thread. \<^verbatim>\<open>start\<close> itself checks nothing and always returns the thread.
\<close>

theorem wpm_range_checked_by_panel:
  "(min_wpm_var f = Some mn \<and> mn \<le> 0 \<longrightarrow>
      snd (on_start controller f) = None \<and> length (fst (on_start controller f)) = 1) \<and>
   (min_wpm_var f = Some mn \<and> max_wpm_var f = Some mx \<and> mx < mn \<longrightarrow>
      snd (on_start controller f) = None \<and> length (fst (on_start controller f)) = 1) \<and>
   (min_wpm_var f = Some mn \<and> max_wpm_var f = Some mx \<and>
    letter_typo_var f = Some ltr \<and> punct_typo_var f = Some ptr \<and>
    think_var f = Some think \<and> jitter_var f = Some jit \<and> (mn \<le> 0 \<or> mx < mn) \<longrightarrow>
      read_settings f = ([Invalid_WPM], Inl ValueError) \<and>
      (\<not> strip_is_empty (textbox f) \<longrightarrow> on_start True f = ([Invalid_WPM], None))) \<and>
   (\<not> strip_is_empty (textbox f) \<and>
    min_wpm_var f = Some mn \<and> max_wpm_var f = Some mx \<and>
    letter_typo_var f = Some ltr \<and> punct_typo_var f = Some ptr \<and>
    think_var f = Some think \<and> jitter_var f = Some jit \<and> 0 < mn \<and> mn \<le> mx \<longrightarrow>
      on_start True f =
        ([], Some (HumanTyper True
                     \<lparr>min_wpm = mn, max_wpm = mx,
                      letter_typo_rate = ltr / 100, punct_typo_rate = ptr / 100,
                      enable_corrections = corr_var f, micro_pauses = pause_var f,
                      think_pause_chance = think / 100, jitter_std = jit / 100,
                      correction_latency = (15 / 100, 55 / 100)\<rparr> True,
                   Thread (textbox f) 3))) \<and>
   start self text' countdown = Inr (Thread text' countdown)"
proof -
  have p1: "snd (on_start controller f) = None \<and> length (fst (on_start controller f)) = 1"
    if "min_wpm_var f = Some mn" "mn \<le> 0"
    using that
    by (auto simp add: on_start_def read_settings_def start_def split: option.splits)
  have p2: "snd (on_start controller f) = None \<and> length (fst (on_start controller f)) = 1"
    if "min_wpm_var f = Some mn" "max_wpm_var f = Some mx" "mx < mn"
    using that
    by (auto simp add: on_start_def read_settings_def start_def split: option.splits)
  have p3: "read_settings f = ([Invalid_WPM], Inl ValueError) \<and>
      (\<not> strip_is_empty (textbox f) \<longrightarrow> on_start True f = ([Invalid_WPM], None))"
    if "min_wpm_var f = Some mn" "max_wpm_var f = Some mx"
      "letter_typo_var f = Some ltr" "punct_typo_var f = Some ptr"
      "think_var f = Some think" "jitter_var f = Some jit" "mn \<le> 0 \<or> mx < mn"
    using that by (auto simp add: on_start_def read_settings_def)
  have p4: "on_start True f =
        ([], Some (HumanTyper True
                     \<lparr>min_wpm = mn, max_wpm = mx,
                      letter_typo_rate = ltr / 100, punct_typo_rate = ptr / 100,
                      enable_corrections = corr_var f, micro_pauses = pause_var f,
                      think_pause_chance = think / 100, jitter_std = jit / 100,
                      correction_latency = (15 / 100, 55 / 100)\<rparr> True,
                   Thread (textbox f) 3))"
    if "\<not> strip_is_empty (textbox f)"
      "min_wpm_var f = Some mn" "max_wpm_var f = Some mx"
      "letter_typo_var f = Some ltr" "punct_typo_var f = Some ptr"
      "think_var f = Some think" "jitter_var f = Some jit" "0 < mn" "mn \<le> mx"
    using that by (auto simp add: on_start_def read_settings_def start_def)
  have p5: "start self text' countdown = Inr (Thread text' countdown)"
    by (simp add: start_def)
  show ?thesis
    using p1 p2 p3 p4 p5 by blast
qed

theorem wpm_range_checked_by_panel_witness:
  "on_start True (default_form\<lparr>min_wpm_var := Some 0\<rparr>) = ([Invalid_WPM], None) \<and>
   read_settings (default_form\<lparr>min_wpm_var := Some 0\<rparr>) = ([Invalid_WPM], Inl ValueError) \<and>
   snd (on_start False (default_form\<lparr>min_wpm_var := Some 0\<rparr>)) = None \<and>
   snd (on_start True (default_form\<lparr>max_wpm_var := Some 10\<rparr>)) = None \<and>
   on_start True (default_form\<lparr>letter_typo_var := Some 500\<rparr>) =
     ([], Some (HumanTyper True (default_settings\<lparr>letter_typo_rate := 5\<rparr>) True,
                Thread ''hi'' 3))"
proof -
  have t: "\<not> strip_is_empty ''hi''"
    by (simp add: strip_is_empty_def isspace_char_def ord_def)
  show ?thesis
    using
      wpm_range_checked_by_panel [where f = "default_form\<lparr>min_wpm_var := Some 0\<rparr>"
        and mn = 0 and mx = 70 and ltr = 3 and ptr = 2 and think = 8 and jit = 25
        and controller = True]
      wpm_range_checked_by_panel [where f = "default_form\<lparr>min_wpm_var := Some 0\<rparr>"
        and mn = 0 and controller = False]
      wpm_range_checked_by_panel [where f = "default_form\<lparr>max_wpm_var := Some 10\<rparr>"
        and mn = 45 and mx = 10 and controller = True]
      wpm_range_checked_by_panel [where f = "default_form\<lparr>letter_typo_var := Some 500\<rparr>"
        and mn = 45 and mx = 70 and ltr = 500 and ptr = 2 and think = 8 and jit = 25]
      t
    by (simp add: default_form_def default_settings_def)
qed

text \<open>
  \<^verbatim>\<open>start\<close> with a minimum WPM of 0 returns the thread, and the thread types the text;
  \<^verbatim>\<open>on_start\<close> with a letter typo rate of 500 percent starts a session.
\<close>

theorem start_unchecked_counterexample:
  "min_wpm (default_settings\<lparr>min_wpm := 0\<rparr>) = 0 \<and>
   start (HumanTyper True (default_settings\<lparr>min_wpm := 0\<rparr>) True) ''hi'' 0 =
     Inr (Thread ''hi'' 0) \<and>
   (case thread_body (HumanTyper True (default_settings\<lparr>min_wpm := 0\<rparr>) True)
           (Thread ''hi'' 0) quiet_world of
      Inl e \<Rightarrow> False
    | Inr w \<Rightarrow> key_actions (trace w) = [TypeText CHR ''h'', TypeText CHR ''i'']) \<and>
   on_start True (default_form\<lparr>letter_typo_var := Some 500\<rparr>) =
     ([], Some (HumanTyper True (default_settings\<lparr>letter_typo_rate := 5\<rparr>) True,
                Thread ''hi'' 3))"
  by (simp add: session_defs start_def run_def post_status_def HumanTyper_def on_start_def
      read_settings_def default_form_def)

text \<open>
  Claim C7, as amended. Without the controller, \<^verbatim>\<open>on_start\<close> shows the empty-text
  warning for a blank text and the missing-dependency dialog otherwise, and starts
  nothing. \<^verbatim>\<open>start\<close> on a typer without keyboard still returns the thread; the thread
  posts its first status, runs the whole countdown (per second the status, the beep and
  a sleep of one second), posts the typing status, and only then \<^verbatim>\<open>type_text\<close> raises
  RuntimeError inside the thread; none of the events emitted is a key action.
\<close>

theorem missing_keyboard_found_late:
  "on_start False f =
     (if strip_is_empty (textbox f) then ([Empty_text], None)
      else ([Missing_dependency], None)) \<and>
   (\<not> keyboard self \<longrightarrow>
      start self text countdown = Inr (Thread text countdown) \<and>
      thread_body self (Thread text countdown) w =
        Inl (RuntimeError,
             w\<lparr>trace := trace w @ status_events self Click_into_target
                          @ countdown_events self (rev [1..countdown])
                          @ status_events self Typing\<rparr>) \<and>
      key_actions (status_events self Click_into_target
                   @ countdown_events self (rev [1..countdown])
                   @ status_events self Typing) = [])"
  by (simp add: on_start_def start_def run_def type_text_def post_status_eq countdown_loop_eq
      key_actions_append key_actions_status_events key_actions_countdown_events)

theorem missing_keyboard_found_late_witness:
  "on_start False default_form = ([Missing_dependency], None) \<and>
   \<not> keyboard (HumanTyper False default_settings True) \<and>
   start (HumanTyper False default_settings True) ''hi'' 3 = Inr (Thread ''hi'' 3) \<and>
   thread_body (HumanTyper False default_settings True) (Thread ''hi'' 3) quiet_world =
     Inl (RuntimeError,
          quiet_world\<lparr>trace :=
            [Status Click_into_target,
             Status (Typing_starts_in 3), Beep, Sleep 1,
             Status (Typing_starts_in 2), Beep, Sleep 1,
             Status (Typing_starts_in 1), Beep, Sleep 1,
             Status Typing]\<rparr>)"
proof -
  have t: "\<not> strip_is_empty (textbox default_form)"
    by (simp add: default_form_def strip_is_empty_def isspace_char_def ord_def)
  have k: "\<not> keyboard (HumanTyper False default_settings True)"
    by (simp add: HumanTyper_def)
  have c: "rev [1..3::int] = [3, 2, 1]"
    by (simp add: upto.simps)
  show ?thesis
    using missing_keyboard_found_late
      [of default_form "HumanTyper False default_settings True" "''hi''" 3 quiet_world] t k
    by (simp add: c quiet_world_def status_events_def countdown_events_def HumanTyper_def)
qed

text \<open>
  \<^verbatim>\<open>start\<close> without keyboard returns the thread; the thread posts the countdown and
  sleeps through it before RuntimeError ends it, and the caller of \<^verbatim>\<open>start\<close> sees
  no error.
\<close>

theorem start_without_keyboard_counterexample:
  "start (HumanTyper False default_settings True) ''hi'' 2 = Inr (Thread ''hi'' 2) \<and>
   thread_body (HumanTyper False default_settings True) (Thread ''hi'' 2) quiet_world =
     Inl (RuntimeError,
          quiet_world\<lparr>trace :=
            [Status Click_into_target,
             Status (Typing_starts_in 2), Beep, Sleep 1,
             Status (Typing_starts_in 1), Beep, Sleep 1,
             Status Typing]\<rparr>)"
  by (simp add: session_defs start_def run_def post_status_def HumanTyper_def upto.simps)

end
